theory Spec2Isabelle
  imports Main "HOL-Library.Extended_Nat"
begin

section \<open>JavaScript values that reach the memoized accessors\<close>

text \<open>
  Objects live at addresses. The arguments of a memoized accessor are a JavaScript array of
  values; the accessors of this model take either no argument or one options object
  \<^verbatim>\<open>Partial<{ depth: number }>\<close>. A number is a non-negative integer or
  \<^verbatim>\<open>Infinity\<close> (\<open>enat\<close>): the depths the documentation speaks of. \<^verbatim>\<open>NaN\<close>, negative
  and fractional numbers are outside the model.
\<close>

type_synonym ref = nat

datatype jsval =
    JUndefined
  | JNumber enat
  | JObject ref "(string \<times> jsval) list"

text \<open>\<^verbatim>\<open>a === b\<close>: primitives by value, objects by identity.\<close>

fun strictEq :: "jsval \<Rightarrow> jsval \<Rightarrow> bool" where
  "strictEq JUndefined JUndefined = True"
| "strictEq (JNumber m) (JNumber n) = (m = n)"
| "strictEq (JObject r fs) (JObject r' fs') = (r = r')"
| "strictEq a b = False"

text \<open>\<^verbatim>\<open>key in a\<close> and \<^verbatim>\<open>a[key]\<close> on a plain object; \<^verbatim>\<open>a[i]\<close> on an array.\<close>

definition hasKey :: "(string \<times> jsval) list \<Rightarrow> string \<Rightarrow> bool" where
  "hasKey fs key = (map_of fs key \<noteq> None)"

definition getProp :: "(string \<times> jsval) list \<Rightarrow> string \<Rightarrow> jsval" where
  "getProp fs key = (case map_of fs key of None \<Rightarrow> JUndefined | Some v \<Rightarrow> v)"

definition getIndex :: "jsval list \<Rightarrow> nat \<Rightarrow> jsval" where
  "getIndex xs i = (if i < length xs then xs ! i else JUndefined)"

section \<open>utils/memoize-utils.ts\<close>

text \<open>
  \<^verbatim>\<open>shallowEqual\<close> and \<^verbatim>\<open>shallowEqualObjects\<close> call each other, the depth going down by one
  from the second to the first. The \<^verbatim>\<open>Array.isArray\<close> branch of \<^verbatim>\<open>shallowEqual\<close> has no
  input here: no argument of a memoized accessor is an array.
\<close>

function shallowEqual :: "jsval \<Rightarrow> jsval \<Rightarrow> nat \<Rightarrow> bool"
  and shallowEqualObjects :: "(string \<times> jsval) list \<Rightarrow> (string \<times> jsval) list \<Rightarrow> nat \<Rightarrow> bool"
where
  "shallowEqual a b depth =
     (case (a, b) of
        (JObject ra fa, JObject rb fb) \<Rightarrow> shallowEqualObjects fa fb depth
      | _ \<Rightarrow> strictEq a b)"
| "shallowEqualObjects a b depth =
     list_all (\<lambda>key.
        hasKey a key \<and> hasKey b key \<and>
        (if depth \<le> 1 then strictEq (getProp a key) (getProp b key)
         else shallowEqual (getProp a key) (getProp b key) (depth - 1)))
       (map fst a @ map fst b)"
  by pat_completeness auto
termination
  by (relation "measure (\<lambda>x. case x of Inl (a, b, d) \<Rightarrow> 2 * d + 1 | Inr (a, b, d) \<Rightarrow> 2 * d)")
     auto

definition shallowEqualArrays :: "jsval list \<Rightarrow> jsval list \<Rightarrow> nat \<Rightarrow> bool" where
  "shallowEqualArrays a b depth =
     list_all (\<lambda>i.
        if depth \<le> 1 then strictEq (getIndex a i) (getIndex b i)
        else shallowEqual (getIndex a i) (getIndex b i) (depth - 1))
       [0 ..< max (length a) (length b)]"

text \<open>
  \<^verbatim>\<open>memoize(fn, depth)\<close>. The cache is the array of \<^verbatim>\<open>{ args, result }\<close> entries closed over
  by the memoizer; here it is a component of the state \<open>'s\<close>, read by \<open>getCache\<close> and
  written by \<open>setCache\<close>. The wrapped function runs in the state and may change it.
\<close>

type_synonym 'r cache = "(jsval list \<times> 'r) list"

definition memoize ::
  "('s \<Rightarrow> 'r cache) \<Rightarrow> ('r cache \<Rightarrow> 's \<Rightarrow> 's) \<Rightarrow> (jsval list \<Rightarrow> 's \<Rightarrow> 'r \<times> 's) \<Rightarrow> nat \<Rightarrow>
   jsval list \<Rightarrow> 's \<Rightarrow> 'r \<times> 's" where
  "memoize getCache setCache fn depth args s =
     (case List.find (\<lambda>cached. shallowEqualArrays args (fst cached) depth) (getCache s) of
        Some cached \<Rightarrow> (snd cached, s)
      | None \<Rightarrow>
          (let (calculatedResult, s') = fn args s
           in (calculatedResult, setCache (getCache s' @ [(args, calculatedResult)]) s')))"

definition memoize_clear :: "('r cache \<Rightarrow> 's \<Rightarrow> 's) \<Rightarrow> 's \<Rightarrow> 's" where
  "memoize_clear setCache s = setCache [] s"

section \<open>The document data\<close>

text \<open>
  The type declarations (\<^verbatim>\<open>octopus.type\<close>, \<^verbatim>\<open>manifest.type\<close>) are not among the sources; the
  fields below are the ones the classes read. A field that is absent, \<^verbatim>\<open>undefined\<close> or \<^verbatim>\<open>null\<close>
  is \<open>None\<close>: every reader of such a field goes through \<^verbatim>\<open>||\<close>, \<^verbatim>\<open>?.\<close> or a truth test,
  which treat the three alike. An absent or \<^verbatim>\<open>null\<close> \<^verbatim>\<open>layers\<close> array is the empty list, as
  \<^verbatim>\<open>octopus['layers'] || []\<close> reads it.
\<close>

datatype layerData = LayerData
  (ld_id: string)
  (ld_name: "string option")
  (ld_layers: "layerData list")
  (ld_symbolID: "string option")
  (ld_documentId: "string option")
  (ld_bitmaps: "(string \<times> bool) list")

record octopusDocument =
  oct_layers :: "layerData list"
  oct_symbolID :: "string option"

record manifest =
  artboard_original_id :: string
  artboard_name :: "string option"
  failed :: bool
  url :: "string option"
  preview_url :: "string option"
  is_symbol :: bool
  symbol_id :: "string option"
  page_original_id :: "string option"
  page_name :: "string option"

text \<open>Truthiness of a \<^verbatim>\<open>string | null | undefined\<close> value, and \<^verbatim>\<open>a || b\<close>, \<^verbatim>\<open>a || null\<close> on such values.\<close>

definition truthyStr :: "string option \<Rightarrow> bool" where
  "truthyStr s = (case s of None \<Rightarrow> False | Some v \<Rightarrow> v \<noteq> [])"

definition jsOr :: "string option \<Rightarrow> string option \<Rightarrow> string option" where
  "jsOr a b = (if truthyStr a then a else b)"

definition orNull :: "string option \<Rightarrow> string option" where
  "orNull a = jsOr a None"

text \<open>The string of a truthy value.\<close>

definition strVal :: "string option \<Rightarrow> string" where
  "strVal s = (case s of None \<Rightarrow> [] | Some v \<Rightarrow> v)"

section \<open>The objects and the store\<close>

text \<open>
  \<^verbatim>\<open>Layer\<close>, \<^verbatim>\<open>Artboard\<close> and \<^verbatim>\<open>Page\<close> hold references to each other (\<^verbatim>\<open>_artboard\<close>,
  \<^verbatim>\<open>_design\<close>), so artboards, designs and layer collections are objects in a store and the
  back-references are addresses. A \<^verbatim>\<open>Layer\<close> never changes after its construction and is a
  value; a \<^verbatim>\<open>LayerCollection\<close> object is the array of its layers. Every address holds an
  object (a method is called on an object that exists); the collections at the addresses from
  \<open>nextCollection\<close> on have not been constructed yet.
\<close>

record layer =
  octopus :: layerData
  l_artboard :: "ref option"
  l_parentLayerId :: "string option"

record artboard =
  a_manifest :: manifest
  a_octopus :: "octopusDocument option"
  a_design :: "ref option"
  getRootLayers_cache :: "ref cache"
  getFlattenedLayers_cache :: "ref cache"

record page =
  p_id :: string
  p_design :: ref
  p_name :: "string option"

text \<open>
  Modelled from the spec: the class \<^verbatim>\<open>Design\<close> (\<^verbatim>\<open>nodes/design.ts\<close>) is not among the sources.
  The spec: a Design "owns a mapping from artboard-id to Artboard (insertion order preserved)
  and from page-id to Page".
\<close>

record design =
  d_artboards :: "(string \<times> ref) list"
  d_pages :: "(string \<times> page) list"

record world =
  artboards :: "ref \<Rightarrow> artboard"
  designs :: "ref \<Rightarrow> design"
  collections :: "ref \<Rightarrow> layer list"
  nextCollection :: ref

datatype error =
    ArtboardNotFound
  | CannotReplaceExistingArtboardId
  | DetachedLayerDepth
  | ParentLayerDepth
  | DetachedLayerComponentArtboard
  | DetachedArtboardLayerComponentArtboard

text \<open>\<^verbatim>\<open>new LayerCollection(layerList)\<close>: a new object at the next free address.\<close>

definition newLayerCollection :: "layer list \<Rightarrow> world \<Rightarrow> ref \<times> world" where
  "newLayerCollection layerList w =
     (nextCollection w,
      w\<lparr>collections := (collections w)(nextCollection w := layerList),
        nextCollection := Suc (nextCollection w)\<rparr>)"

section \<open>Design lookups\<close>

text \<open>
  Modelled from the spec: \<^verbatim>\<open>Design.getArtboardById\<close>, \<^verbatim>\<open>Design.getPageById\<close> and
  \<^verbatim>\<open>Design.getArtboardByComponentId\<close> are not among the sources. The spec:
  "\<^verbatim>\<open>getArtboardById\<close>/\<^verbatim>\<open>getArtboardByComponentId\<close> -- O(1) or O(n) lookup, return not-found as
  an empty result rather than erroring"; "get page returns a not-found result"; the search order
  is the Design's artboard insertion order.
\<close>

definition Design_getArtboardById :: "design \<Rightarrow> string \<Rightarrow> ref option" where
  "Design_getArtboardById d artboardId = map_of (d_artboards d) artboardId"

definition Design_getPageById :: "design \<Rightarrow> string \<Rightarrow> page option" where
  "Design_getPageById d pageId = map_of (d_pages d) pageId"

section \<open>nodes/artboard: the manifest\<close>

definition Artboard_id :: "artboard \<Rightarrow> string" where
  "Artboard_id a = artboard_original_id (a_manifest a)"

definition Artboard_componentId :: "artboard \<Rightarrow> string option" where
  "Artboard_componentId a = orNull (symbol_id (a_manifest a))"

definition Artboard_pageId :: "artboard \<Rightarrow> string option" where
  "Artboard_pageId a = orNull (page_original_id (a_manifest a))"

definition Artboard_name :: "artboard \<Rightarrow> string option" where
  "Artboard_name a = orNull (artboard_name (a_manifest a))"

definition Design_getArtboardByComponentId :: "world \<Rightarrow> design \<Rightarrow> string \<Rightarrow> ref option" where
  "Design_getArtboardByComponentId w d componentId =
     List.find (\<lambda>r. Artboard_componentId (artboards w r) = Some componentId)
       (map snd (d_artboards d))"

text \<open>
  The parameters of \<^verbatim>\<open>_createManifest\<close>. A destructuring default applies to a property that
  is missing or \<^verbatim>\<open>undefined\<close> (\<open>None\<close>) and not to \<^verbatim>\<open>null\<close> (\<open>Some None\<close>).
\<close>

record manifestParams =
  cm_id :: string
  cm_pageId :: "string option option"
  cm_componentId :: "string option option"
  cm_name :: "string option option"

definition Artboard_createManifest ::
  "world \<Rightarrow> ref option \<Rightarrow> manifest option \<Rightarrow> octopusDocument option \<Rightarrow> manifestParams \<Rightarrow> manifest" where
  "Artboard_createManifest w thisDesign prevManifest octopusDoc params =
     (let pageId = (case cm_pageId params of
                      None \<Rightarrow> (case prevManifest of None \<Rightarrow> None | Some m \<Rightarrow> page_original_id m)
                    | Some v \<Rightarrow> v);
          componentId = (case cm_componentId params of
                      None \<Rightarrow> jsOr (case octopusDoc of None \<Rightarrow> None | Some oct \<Rightarrow> oct_symbolID oct)
                                   (case prevManifest of None \<Rightarrow> None | Some m \<Rightarrow> symbol_id m)
                    | Some v \<Rightarrow> v);
          name = (case cm_name params of
                      None \<Rightarrow> (case prevManifest of None \<Rightarrow> None | Some m \<Rightarrow> artboard_name m)
                    | Some v \<Rightarrow> v);
          page = (case thisDesign of
                      None \<Rightarrow> None
                    | Some d \<Rightarrow> (case pageId of
                          None \<Rightarrow> None
                        | Some pid \<Rightarrow> if pid = [] then None else Design_getPageById (designs w d) pid));
          base = (case prevManifest of
                      None \<Rightarrow> \<lparr>artboard_original_id = cm_id params, artboard_name = None,
                               failed = False, url = None, preview_url = None,
                               is_symbol = False, symbol_id = None,
                               page_original_id = None, page_name = None\<rparr>
                    | Some m \<Rightarrow> m);
          m1 = base\<lparr>artboard_original_id := cm_id params,
                    artboard_name := orNull name,
                    is_symbol := truthyStr componentId,
                    symbol_id := orNull componentId\<rparr>
      in if truthyStr pageId
         then m1\<lparr>page_original_id := pageId,
                 page_name :=
                   jsOr (jsOr (case page of None \<Rightarrow> None | Some p \<Rightarrow> p_name p)
                              (if pageId = (case prevManifest of None \<Rightarrow> None
                                            | Some m \<Rightarrow> page_original_id m)
                               then (case prevManifest of None \<Rightarrow> None | Some m \<Rightarrow> page_name m)
                               else None))
                        None\<rparr>
         else m1)"

definition Artboard_getManifest :: "ref \<Rightarrow> world \<Rightarrow> manifest" where
  "Artboard_getManifest this w = a_manifest (artboards w this)"

definition set_manifest :: "ref \<Rightarrow> manifest \<Rightarrow> world \<Rightarrow> world" where
  "set_manifest this m w = w\<lparr>artboards := (artboards w)(this := (artboards w this)\<lparr>a_manifest := m\<rparr>)\<rparr>"

definition Artboard_setManifest :: "ref \<Rightarrow> manifest \<Rightarrow> world \<Rightarrow> error + world" where
  "Artboard_setManifest this nextManifest w =
     (let a = artboards w this
      in if artboard_original_id nextManifest \<noteq> Artboard_id a
         then Inl CannotReplaceExistingArtboardId
         else Inr (set_manifest this
                (Artboard_createManifest w (a_design a) (Some nextManifest) (a_octopus a)
                   \<lparr>cm_id = Artboard_id a, cm_pageId = None, cm_componentId = None, cm_name = None\<rparr>)
                w))"

definition Artboard_isLoaded :: "ref \<Rightarrow> world \<Rightarrow> bool" where
  "Artboard_isLoaded this w = (a_octopus (artboards w this) \<noteq> None)"

definition Artboard_unload :: "ref \<Rightarrow> world \<Rightarrow> world" where
  "Artboard_unload this w = w\<lparr>artboards := (artboards w)(this := (artboards w this)\<lparr>a_octopus := None\<rparr>)\<rparr>"

definition Artboard_getOctopus :: "ref \<Rightarrow> world \<Rightarrow> octopusDocument option" where
  "Artboard_getOctopus this w = a_octopus (artboards w this)"

definition Artboard_getDesign :: "ref \<Rightarrow> world \<Rightarrow> ref option" where
  "Artboard_getDesign this w = a_design (artboards w this)"

definition Artboard_setPage :: "ref \<Rightarrow> string \<Rightarrow> world \<Rightarrow> world" where
  "Artboard_setPage this nextPageId w =
     (let a = artboards w this
      in set_manifest this
           (Artboard_createManifest w (a_design a) (Some (a_manifest a)) (a_octopus a)
              \<lparr>cm_id = Artboard_id a, cm_pageId = Some (Some nextPageId),
               cm_componentId = None, cm_name = None\<rparr>)
           w)"

section \<open>nodes/page\<close>

definition Page_getArtboardById :: "page \<Rightarrow> string \<Rightarrow> world \<Rightarrow> ref option" where
  "Page_getArtboardById this artboardId w =
     (case Design_getArtboardById (designs w (p_design this)) artboardId of
        None \<Rightarrow> None
      | Some artboard \<Rightarrow>
          if Artboard_pageId (artboards w artboard) \<noteq> Some (p_id this) then None
          else Some artboard)"

definition Page_addArtboard :: "page \<Rightarrow> string \<Rightarrow> world \<Rightarrow> error + world" where
  "Page_addArtboard this artboardId w =
     (case Page_getArtboardById this artboardId w of
        None \<Rightarrow> Inl ArtboardNotFound
      | Some artboard \<Rightarrow> Inr (Artboard_setPage artboard (p_id this) w))"

section \<open>nodes/layer: the layer tree\<close>

text \<open>
  An options object that is not a memoization key is typed: \<^verbatim>\<open>depth\<close> unset is \<open>None\<close>.
  \<open>depthOr d dflt\<close> is \<^verbatim>\<open>options.depth || dflt\<close>: zero is falsy. The accessors of \<^verbatim>\<open>Layer\<close>
  are memoized on the layer object, over data that never changes, by caches that are never
  cleared; they are functions of the layer.
\<close>

definition depthOr :: "enat option \<Rightarrow> enat \<Rightarrow> enat" where
  "depthOr d dflt = (case d of None \<Rightarrow> dflt | Some n \<Rightarrow> if n = 0 then dflt else n)"

definition Layer_id :: "layer \<Rightarrow> string" where
  "Layer_id this = ld_id (octopus this)"

text \<open>The constructor of \<^verbatim>\<open>Layer\<close>: \<^verbatim>\<open>params.artboard || null\<close>, \<^verbatim>\<open>params.parentLayerId || null\<close>.\<close>

definition newLayer :: "layerData \<Rightarrow> string option \<Rightarrow> ref option \<Rightarrow> layer" where
  "newLayer layerOctopus parentLayerId artboard =
     \<lparr>octopus = layerOctopus, l_artboard = artboard, l_parentLayerId = orNull parentLayerId\<rparr>"

text \<open>
  Modelled from the spec: \<^verbatim>\<open>createLayers\<close> (\<^verbatim>\<open>utils/layer-factories-utils\<close>) is not among the
  sources. The spec: the tree "is built top-down from one content snapshot", nested layers
  "are addressed by position in the parent's content snapshot": one \<^verbatim>\<open>Layer\<close> per entry of
  the data list, in order, all with the given parent layer id and artboard.
\<close>

definition createLayers :: "layerData list \<Rightarrow> string option \<Rightarrow> ref option \<Rightarrow> layer list" where
  "createLayers layerDataList parentLayerId artboard =
     map (\<lambda>layerOctopus. newLayer layerOctopus parentLayerId artboard) layerDataList"

definition Layer_getDirectlyNestedLayers :: "layer \<Rightarrow> layer list" where
  "Layer_getDirectlyNestedLayers this =
     createLayers (ld_layers (octopus this)) (Some (Layer_id this)) (l_artboard this)"

text \<open>
  \<^verbatim>\<open>Layer.getNestedLayers\<close> is from the source. Modelled from the spec:
  \<^verbatim>\<open>LayerCollection.flatten\<close> (\<^verbatim>\<open>collections/layer-collection\<close>) is not among the sources. The
  spec: "\<^verbatim>\<open>flatten({depth?})\<close> produces a new collection containing every explicitly-included
  layer and its nested layers down to \<^verbatim>\<open>depth\<close> levels, in document order", nested layers
  of an entry before the next entry, "unset/0/Infinity mean unlimited"; the documentation of
  the facade: "1 means only the layers nested immediately in the collection layers".
\<close>

function Layer_getNestedLayers :: "layer \<Rightarrow> enat option \<Rightarrow> layer list"
  and LayerCollection_flatten :: "layer list \<Rightarrow> enat option \<Rightarrow> layer list"
where
  "Layer_getNestedLayers this optDepth =
     (let depth = depthOr optDepth 1;
          nestedLayers = Layer_getDirectlyNestedLayers this
      in if depth = 1 then nestedLayers
         else LayerCollection_flatten nestedLayers (Some (depth - 1)))"
| "LayerCollection_flatten layers optDepth =
     (let depth = depthOr optDepth \<infinity>
      in concat (map (\<lambda>l. l # Layer_getNestedLayers l (Some depth)) layers))"
  by pat_completeness auto
termination
proof (relation "measure (\<lambda>x. case x of
          Inl (l, d) \<Rightarrow> 2 * size (octopus l)
        | Inr (ls, d) \<Rightarrow> 2 * sum_list (map (\<lambda>l. size (octopus l)) ls) + 1)", goal_cases)
  case 1
  then show ?case by simp
next
  case (2 this optDepth x xa)
  have le: "sum_list (map size ds) \<le> size_list size ds" for ds :: "layerData list"
    by (induction ds) auto
  have "map (\<lambda>l. size (octopus l)) (Layer_getDirectlyNestedLayers this)
        = map size (ld_layers (octopus this))"
    by (simp add: Layer_getDirectlyNestedLayers_def createLayers_def newLayer_def comp_def)
  moreover have "sum_list (map size (ld_layers (octopus this)))
        \<le> size_list size (ld_layers (octopus this))"
    by (rule le)
  moreover have "size_list size (ld_layers (octopus this)) < size (octopus this)"
    by (cases "octopus this") simp
  ultimately have "sum_list (map (\<lambda>l. size (octopus l)) (Layer_getDirectlyNestedLayers this))
        < size (octopus this)"
    by simp
  with 2 show ?case by simp
next
  case (3 layers optDepth x xa)
  then have "size (octopus xa) \<le> sum_list (map (\<lambda>l. size (octopus l)) layers)"
    by (simp add: member_le_sum_list)
  then show ?case by simp
qed

text \<open>
  Modelled from the spec: \<^verbatim>\<open>createFlattenedLayers\<close> (\<^verbatim>\<open>utils/layer-factories-utils\<close>) is not
  among the sources. The spec: flattened layers are "the depth-first, document-order expansion
  of a layer tree up to an optional depth bound"; "\<^verbatim>\<open>getFlattenedLayers({depth:1})\<close> returns
  only root layers; \<^verbatim>\<open>getFlattenedLayers({depth:2})\<close> additionally includes the group's direct
  children; unlimited depth includes all".
\<close>

definition createFlattenedLayers :: "layerData list \<Rightarrow> ref option \<Rightarrow> enat option \<Rightarrow> layer list" where
  "createFlattenedLayers layerDataList artboard optDepth =
     (let depth = depthOr optDepth \<infinity>;
          layers = createLayers layerDataList None artboard
      in if depth = 1 then layers
         else LayerCollection_flatten layers (Some (depth - 1)))"

section \<open>nodes/artboard: the memoized layer views\<close>

definition set_getRootLayers_cache :: "ref \<Rightarrow> ref cache \<Rightarrow> world \<Rightarrow> world" where
  "set_getRootLayers_cache this c w =
     w\<lparr>artboards := (artboards w)(this := (artboards w this)\<lparr>getRootLayers_cache := c\<rparr>)\<rparr>"

definition set_getFlattenedLayers_cache :: "ref \<Rightarrow> ref cache \<Rightarrow> world \<Rightarrow> world" where
  "set_getFlattenedLayers_cache this c w =
     w\<lparr>artboards := (artboards w)(this := (artboards w this)\<lparr>getFlattenedLayers_cache := c\<rparr>)\<rparr>"

text \<open>\<^verbatim>\<open>this._octopus?.['layers'] || []\<close>\<close>

definition octopusLayers :: "octopusDocument option \<Rightarrow> layerData list" where
  "octopusLayers oct = (case oct of None \<Rightarrow> [] | Some d \<Rightarrow> oct_layers d)"

definition getRootLayers_fn :: "ref \<Rightarrow> jsval list \<Rightarrow> world \<Rightarrow> ref \<times> world" where
  "getRootLayers_fn this args w =
     (let layerDataList = octopusLayers (a_octopus (artboards w this));
          layerList = createLayers layerDataList None (Some this)
      in newLayerCollection layerList w)"

definition Artboard_getRootLayers :: "ref \<Rightarrow> world \<Rightarrow> ref \<times> world" where
  "Artboard_getRootLayers this w =
     memoize (\<lambda>w. getRootLayers_cache (artboards w this)) (set_getRootLayers_cache this)
       (getRootLayers_fn this) 1 [] w"

text \<open>
  The parameter \<^verbatim>\<open>options = {}\<close> of the memoized function and \<^verbatim>\<open>options.depth || Infinity\<close>:
  a missing or \<^verbatim>\<open>undefined\<close> first argument is the empty object, and a \<^verbatim>\<open>depth\<close> that is
  missing, \<^verbatim>\<open>undefined\<close> or zero gives \<^verbatim>\<open>Infinity\<close>. (The field is typed \<^verbatim>\<open>number\<close>; an
  object there is read as unset.)
\<close>

definition optionsDepth :: "jsval list \<Rightarrow> enat option" where
  "optionsDepth args =
     (case getIndex args 0 of
        JObject r fs \<Rightarrow> (case getProp fs ''depth'' of JNumber n \<Rightarrow> Some n | _ \<Rightarrow> None)
      | _ \<Rightarrow> None)"

definition getFlattenedLayers_fn :: "ref \<Rightarrow> jsval list \<Rightarrow> world \<Rightarrow> ref \<times> world" where
  "getFlattenedLayers_fn this args w =
     (let layerDataList = octopusLayers (a_octopus (artboards w this));
          depth = depthOr (optionsDepth args) \<infinity>;
          layerList = createFlattenedLayers layerDataList (Some this) (Some depth)
      in newLayerCollection layerList w)"

definition Artboard_getFlattenedLayers :: "ref \<Rightarrow> jsval list \<Rightarrow> world \<Rightarrow> ref \<times> world" where
  "Artboard_getFlattenedLayers this args w =
     memoize (\<lambda>w. getFlattenedLayers_cache (artboards w this)) (set_getFlattenedLayers_cache this)
       (getFlattenedLayers_fn this) 2 args w"

definition Artboard_setOctopus :: "ref \<Rightarrow> octopusDocument \<Rightarrow> world \<Rightarrow> world" where
  "Artboard_setOctopus this nextOctopus w =
     (let w1 = w\<lparr>artboards := (artboards w)(this := (artboards w this)\<lparr>a_octopus := Some nextOctopus\<rparr>)\<rparr>;
          a1 = artboards w1 this;
          w2 = set_manifest this
                 (Artboard_createManifest w1 (a_design a1) (Some (a_manifest a1)) (Some nextOctopus)
                    \<lparr>cm_id = Artboard_id a1, cm_pageId = None, cm_componentId = None, cm_name = None\<rparr>)
                 w1;
          w3 = memoize_clear (set_getRootLayers_cache this) w2
      in memoize_clear (set_getFlattenedLayers_cache this) w3)"




section \<open>nodes/layer: component artboards\<close>

definition Layer_getComponentArtboard :: "layer \<Rightarrow> world \<Rightarrow> error + ref option" where
  "Layer_getComponentArtboard this w =
     (let componentArtboardId = ld_documentId (octopus this);
          componentId = ld_symbolID (octopus this)
      in if \<not> truthyStr componentArtboardId \<and> \<not> truthyStr componentId then Inr None
         else case l_artboard this of
             None \<Rightarrow> Inl DetachedLayerComponentArtboard
           | Some artboard \<Rightarrow>
               (case Artboard_getDesign artboard w of
                  None \<Rightarrow> Inl DetachedArtboardLayerComponentArtboard
                | Some d \<Rightarrow>
                    Inr (if truthyStr componentArtboardId
                         then Design_getArtboardById (designs w d) (strVal componentArtboardId)
                         else if truthyStr componentId
                         then Design_getArtboardByComponentId w (designs w d) (strVal componentId)
                         else None)))"

section \<open>nodes/layer: bitmap assets\<close>

record bitmapAssetDescriptor =
  bad_layerId :: string
  bad_name :: string
  bad_prerendered :: bool

record aggregatedBitmapAssetDescriptor =
  name :: string
  prerendered :: bool
  layerIds :: "string list"

record bitmapAssetOptions =
  ob_depth :: "enat option"
  ob_includePrerendered :: "bool option"

text \<open>
  Modelled from the spec: \<^verbatim>\<open>getLayerBitmapAssets\<close> (\<^verbatim>\<open>utils/layer-bitmaps-utils\<close>) is not among
  the sources. The spec: a layer has its "own bitmap-asset usage"; a descriptor carries "the
  asset's identity" and the referencing layer's id; pre-rendered bitmap assets are left out
  unless \<^verbatim>\<open>includePrerendered\<close>. The bitmaps a layer's content refers to are the field
  \<open>ld_bitmaps\<close>: the asset's name and whether it is pre-rendered.
\<close>

definition getLayerBitmapAssets :: "layer \<Rightarrow> bool \<Rightarrow> bitmapAssetDescriptor list" where
  "getLayerBitmapAssets l includePrerendered =
     map (\<lambda>b. \<lparr>bad_layerId = Layer_id l, bad_name = fst b, bad_prerendered = snd b\<rparr>)
       (filter (\<lambda>b. includePrerendered \<or> \<not> snd b) (ld_bitmaps (octopus l)))"

text \<open>
  Modelled from the spec: \<^verbatim>\<open>keepUniqueBitmapAssetDescriptors\<close> (\<^verbatim>\<open>utils/assets-utils\<close>) is
  not among the sources. The spec: "deduplicating by asset identity while unioning the set of
  layer-ids that reference each asset". Each descriptor is merged into the first earlier one
  of the same name, or added at the end.
\<close>

fun mergeBitmapAssetDescriptor ::
  "aggregatedBitmapAssetDescriptor \<Rightarrow> aggregatedBitmapAssetDescriptor list \<Rightarrow>
   aggregatedBitmapAssetDescriptor list" where
  "mergeBitmapAssetDescriptor desc [] = [desc]"
| "mergeBitmapAssetDescriptor desc (prevDesc # rest) =
     (if name prevDesc = name desc
      then prevDesc\<lparr>layerIds := remdups (layerIds prevDesc @ layerIds desc)\<rparr> # rest
      else prevDesc # mergeBitmapAssetDescriptor desc rest)"

definition keepUniqueBitmapAssetDescriptors ::
  "aggregatedBitmapAssetDescriptor list \<Rightarrow> aggregatedBitmapAssetDescriptor list" where
  "keepUniqueBitmapAssetDescriptors bitmapAssetDescs =
     foldl (\<lambda>acc desc. mergeBitmapAssetDescriptor desc acc) [] bitmapAssetDescs"

definition Layer_createBitmapAssetDescriptors :: "layer \<Rightarrow> bool \<Rightarrow> bitmapAssetDescriptor list" where
  "Layer_createBitmapAssetDescriptors this includePrerendered =
     getLayerBitmapAssets this includePrerendered"

function Layer_getBitmapAssets ::
  "layer \<Rightarrow> bitmapAssetOptions \<Rightarrow> aggregatedBitmapAssetDescriptor list" where
  "Layer_getBitmapAssets this options =
     (let layerBitmapAssetDescs =
            map (\<lambda>desc. \<lparr>name = bad_name desc, prerendered = bad_prerendered desc,
                         layerIds = [bad_layerId desc]\<rparr>)
              (Layer_createBitmapAssetDescriptors this (ob_includePrerendered options \<noteq> Some False));
          depth = depthOr (ob_depth options) \<infinity>;
          nestedLayerBitmapAssetDescs =
            (if depth = 1 then []
             else concat (map (\<lambda>nestedLayer.
                     Layer_getBitmapAssets nestedLayer (options\<lparr>ob_depth := Some (depth - 1)\<rparr>))
                   (Layer_getNestedLayers this (Some 1))))
      in keepUniqueBitmapAssetDescriptors (layerBitmapAssetDescs @ nestedLayerBitmapAssetDescs))"
  by pat_completeness auto
termination
proof (relation "measure (\<lambda>(l, opts). size (octopus l))", goal_cases)
  case 1
  then show ?case by simp
next
  case (2 this options x xa xb)
  have "Layer_getNestedLayers this (Some 1) = Layer_getDirectlyNestedLayers this"
    by (simp add: depthOr_def)
  with 2 have "octopus xb \<in> set (ld_layers (octopus this))"
    by (auto simp: Layer_getDirectlyNestedLayers_def createLayers_def newLayer_def)
  then have "size (octopus xb) < size (octopus this)"
    by (cases "octopus this") (auto simp: less_Suc_eq_le dest: size_list_estimation')
  then show ?case by simp
qed

declare Layer_getNestedLayers.simps [simp del] LayerCollection_flatten.simps [simp del]
  Layer_getBitmapAssets.simps [simp del]

section \<open>Example documents\<close>

text \<open>
  A design with two artboards and one page. Artboard \<open>a\<close> (object 0) is on no page and holds
  a root layer with a group, a leaf in the group and a sibling of the group; artboard \<open>b\<close>
  (object 1) is the component \<open>sym\<close> on page \<open>p1\<close>. Every other artboard object is detached
  and unloaded.
\<close>

definition exManifest :: "string \<Rightarrow> string option \<Rightarrow> string option \<Rightarrow> manifest" where
  "exManifest artboardId componentId pageId =
     \<lparr>artboard_original_id = artboardId, artboard_name = None, failed = False, url = None,
      preview_url = None, is_symbol = (componentId \<noteq> None), symbol_id = componentId,
      page_original_id = pageId, page_name = None\<rparr>"

definition exLeaf :: layerData where
  "exLeaf = LayerData ''leaf'' None [] None None [(''photo.png'', False)]"

definition exGroup :: layerData where
  "exGroup = LayerData ''group'' None [exLeaf] None None []"

definition exSibling :: layerData where
  "exSibling = LayerData ''sibling'' None [] (Some ''sym'') None [(''photo.png'', False)]"

definition exRoot :: layerData where
  "exRoot = LayerData ''root'' None [exGroup, exSibling] None None []"

definition exOctopus :: octopusDocument where
  "exOctopus = \<lparr>oct_layers = [exRoot], oct_symbolID = None\<rparr>"

definition exOctopus2 :: octopusDocument where
  "exOctopus2 = \<lparr>oct_layers = [exSibling], oct_symbolID = None\<rparr>"

definition exPage :: page where
  "exPage = \<lparr>p_id = ''p1'', p_design = 0, p_name = Some ''Page 1''\<rparr>"

definition exDesign :: design where
  "exDesign = \<lparr>d_artboards = [(''a'', 0), (''b'', 1)], d_pages = [(''p1'', exPage)]\<rparr>"

definition exArtboardA :: artboard where
  "exArtboardA = \<lparr>a_manifest = exManifest ''a'' None None, a_octopus = Some exOctopus,
     a_design = Some 0, getRootLayers_cache = [], getFlattenedLayers_cache = []\<rparr>"

definition exArtboardB :: artboard where
  "exArtboardB = \<lparr>a_manifest = exManifest ''b'' (Some ''sym'') (Some ''p1''), a_octopus = None,
     a_design = Some 0, getRootLayers_cache = [], getFlattenedLayers_cache = []\<rparr>"

definition exDetached :: artboard where
  "exDetached = \<lparr>a_manifest = exManifest ''x'' None None, a_octopus = None,
     a_design = None, getRootLayers_cache = [], getFlattenedLayers_cache = []\<rparr>"

definition exWorld :: world where
  "exWorld = \<lparr>artboards = (\<lambda>r. if r = 0 then exArtboardA else if r = 1 then exArtboardB else exDetached),
     designs = (\<lambda>r. exDesign), collections = (\<lambda>r. []), nextCollection = 0\<rparr>"

section \<open>Notions of the claims\<close>

text \<open>
  "All nested layers of the layer at every nesting level", in document order: the layers of
  the subtrees of the layer's content, each layer before its own nested layers and those
  before its next sibling.
\<close>

fun subtreeLayers :: "ref option \<Rightarrow> string option \<Rightarrow> layerData \<Rightarrow> layer list" where
  "subtreeLayers artboard parentLayerId (LayerData i n ls s d b) =
     newLayer (LayerData i n ls s d b) parentLayerId artboard
       # concat (map (subtreeLayers artboard (Some i)) ls)"

definition allNestedLayers :: "layer \<Rightarrow> layer list" where
  "allNestedLayers this =
     concat (map (subtreeLayers (l_artboard this) (Some (Layer_id this))) (ld_layers (octopus this)))"

text \<open>
  Two properties of the store that every sequence of calls keeps once it holds (it holds
  when the caches are empty, as after \<^verbatim>\<open>setOctopus\<close>). The cached collections of the artboard
  are objects that exist; and every cached flattened collection is the flattened view of the
  artboard's current content at the depth of its key.
\<close>

definition cachesAllocated :: "ref \<Rightarrow> world \<Rightarrow> bool" where
  "cachesAllocated this w =
     (list_all (\<lambda>c. snd c < nextCollection w) (getRootLayers_cache (artboards w this)) \<and>
      list_all (\<lambda>c. snd c < nextCollection w) (getFlattenedLayers_cache (artboards w this)))"

definition flattenedCacheValid :: "ref \<Rightarrow> world \<Rightarrow> bool" where
  "flattenedCacheValid this w =
     list_all (\<lambda>c. collections w (snd c) =
                  createFlattenedLayers (octopusLayers (a_octopus (artboards w this))) (Some this)
                    (Some (depthOr (optionsDepth (fst c)) \<infinity>)))
       (getFlattenedLayers_cache (artboards w this))"

text \<open>
  The example artboard \<open>a\<close> after \<^verbatim>\<open>getRootLayers()\<close>, then \<^verbatim>\<open>getFlattenedLayers()\<close>, then
  \<^verbatim>\<open>setOctopus\<close> with other content and \<^verbatim>\<open>getRootLayers()\<close>, then \<^verbatim>\<open>getFlattenedLayers()\<close>.
\<close>

definition exW1 :: world where "exW1 = snd (Artboard_getRootLayers 0 exWorld)"

definition exW2 :: world where "exW2 = snd (Artboard_getFlattenedLayers 0 [] exW1)"

definition exW3 :: world where "exW3 = snd (Artboard_getRootLayers 0 (Artboard_setOctopus 0 exOctopus2 exW2))"

definition exW4 :: world where "exW4 = snd (Artboard_getFlattenedLayers 0 [] exW3)"






text \<open>
  The layers whose bitmap assets \<^verbatim>\<open>getBitmapAssets(options)\<close> aggregates: the layer itself and,
  unless the depth is 1, its nested layers down to \<^verbatim>\<open>depth - 1\<close> levels. The uses of a list of
  aggregated descriptors are the pairs of an asset name and a layer id listed under it; the
  uses of a layer are the pairs of the name of one of its own bitmap assets and its id.
\<close>

definition bitmapAssetScope :: "layer \<Rightarrow> bitmapAssetOptions \<Rightarrow> layer list" where
  "bitmapAssetScope this options =
     (let depth = depthOr (ob_depth options) \<infinity>
      in this # (if depth = 1 then [] else Layer_getNestedLayers this (Some (depth - 1))))"

definition assetUses :: "aggregatedBitmapAssetDescriptor list \<Rightarrow> (string \<times> string) set" where
  "assetUses ds = (\<Union>d \<in> set ds. {name d} \<times> set (layerIds d))"

definition ownAssetUses :: "layer \<Rightarrow> bool \<Rightarrow> (string \<times> string) set" where
  "ownAssetUses l incl = (\<lambda>b. (bad_name b, Layer_id l)) ` set (Layer_createBitmapAssetDescriptors l incl)"

text \<open>
  \<^verbatim>\<open>getBitmapAssets\<close> of each layer of a list, concatenated: the \<^verbatim>\<open>flatMap\<close> over the nested
  layers, under a name.
\<close>

definition Layer_getBitmapAssets_each ::
  "layer list \<Rightarrow> bitmapAssetOptions \<Rightarrow> aggregatedBitmapAssetDescriptor list" where
  "Layer_getBitmapAssets_each layers options =
     concat (map (\<lambda>nestedLayer. Layer_getBitmapAssets nestedLayer options) layers)"

text \<open>
  More examples: the layers of the example artboard \<open>a\<close>; a layer of the unloaded artboard
  \<open>b\<close> whose parent layer id names no layer there; and a content in which two layers share
  the id \<open>x\<close>.
\<close>

definition exRootLayer :: layer where "exRootLayer = newLayer exRoot None (Some 0)"

definition exLeafLayer :: layer where "exLeafLayer = newLayer exLeaf (Some ''group'') (Some 0)"

definition exSiblingLayer :: layer where "exSiblingLayer = newLayer exSibling (Some ''root'') (Some 0)"

definition exOptions :: bitmapAssetOptions where
  "exOptions = \<lparr>ob_depth = None, ob_includePrerendered = None\<rparr>"



section \<open>Facts used throughout\<close>

lemmas ex_defs = exWorld_def exArtboardA_def exArtboardB_def exDetached_def exDesign_def exPage_def
  exOctopus_def exOctopus2_def exRoot_def exGroup_def exSibling_def exLeaf_def exManifest_def

lemmas str_defs = truthyStr_def jsOr_def orNull_def strVal_def

lemma createManifest_id [simp]:
  "artboard_original_id (Artboard_createManifest w d prev oct params) = cm_id params"
  by (simp add: Artboard_createManifest_def Let_def)

lemma createManifest_kept:
  "failed (Artboard_createManifest w d (Some m) oct params) = failed m"
  "url (Artboard_createManifest w d (Some m) oct params) = url m"
  "preview_url (Artboard_createManifest w d (Some m) oct params) = preview_url m"
  by (simp_all add: Artboard_createManifest_def Let_def)

subsection \<open>Nested layers\<close>

lemma LayerCollection_flatten_Nil [simp, code]: "LayerCollection_flatten [] optDepth = []"
  by (simp add: LayerCollection_flatten.simps)

lemma LayerCollection_flatten_Cons [simp, code]:
  "LayerCollection_flatten (l # ls) optDepth =
     (l # Layer_getNestedLayers l (Some (depthOr optDepth \<infinity>))) @ LayerCollection_flatten ls optDepth"
  by (simp add: LayerCollection_flatten.simps Let_def)

lemma getNestedLayers_unset: "Layer_getNestedLayers l None = Layer_getDirectlyNestedLayers l"
  by (simp add: Layer_getNestedLayers.simps depthOr_def)

lemma getNestedLayers_zero: "Layer_getNestedLayers l (Some 0) = Layer_getDirectlyNestedLayers l"
  by (simp add: Layer_getNestedLayers.simps depthOr_def)

lemma getNestedLayers_one: "Layer_getNestedLayers l (Some 1) = Layer_getDirectlyNestedLayers l"
  by (simp add: Layer_getNestedLayers.simps depthOr_def)

lemma getNestedLayers_infinity:
  "Layer_getNestedLayers l (Some \<infinity>) = LayerCollection_flatten (Layer_getDirectlyNestedLayers l) (Some \<infinity>)"
  by (simp add: Layer_getNestedLayers.simps depthOr_def Let_def)

lemma flatten_map:
  "LayerCollection_flatten (map f ds) optDepth
     = concat (map (\<lambda>d. f d # Layer_getNestedLayers (f d) (Some (depthOr optDepth \<infinity>))) ds)"
  by (induction ds) simp_all

lemma nested_infinity_subtree:
  "Layer_getNestedLayers (newLayer d pid a) (Some \<infinity>)
     = concat (map (subtreeLayers a (Some (ld_id d))) (ld_layers d))"
proof (induction d arbitrary: pid)
  case (LayerData i n ls s dd b)
  let ?L = "newLayer (LayerData i n ls s dd b) pid a"
  have direct: "Layer_getDirectlyNestedLayers ?L = map (\<lambda>x. newLayer x (Some i) a) ls"
    by (simp add: Layer_getDirectlyNestedLayers_def createLayers_def newLayer_def Layer_id_def)
  have "Layer_getNestedLayers ?L (Some \<infinity>)
      = LayerCollection_flatten (map (\<lambda>x. newLayer x (Some i) a) ls) (Some \<infinity>)"
    unfolding getNestedLayers_infinity direct ..
  also have "\<dots> = concat (map (\<lambda>x. newLayer x (Some i) a
                  # Layer_getNestedLayers (newLayer x (Some i) a) (Some \<infinity>)) ls)"
    by (simp add: flatten_map depthOr_def)
  also have "\<dots> = concat (map (subtreeLayers a (Some i)) ls)"
  proof -
    have "newLayer x (Some i) a # Layer_getNestedLayers (newLayer x (Some i) a) (Some \<infinity>)
          = subtreeLayers a (Some i) x" if x: "x \<in> set ls" for x
      using LayerData.IH [OF x, of "Some i"] by (cases x) simp
    then show ?thesis by (simp cong: map_cong)
  qed
  finally show ?case by simp
qed

subsection \<open>Shallow equality\<close>

lemma strictEq_refl [simp]: "strictEq a a"
  by (cases a) simp_all

lemma hasKey_fst: "key \<in> fst ` set fs \<Longrightarrow> hasKey fs key"
  by (simp add: hasKey_def map_of_eq_None_iff)

lemma shallowEqual_refl_aux:
  "(\<forall>a. shallowEqual a a d) \<and> (\<forall>fs. shallowEqualObjects fs fs d)"
proof (induction d rule: less_induct)
  case (less d)
  have objs: "shallowEqualObjects fs fs d" for fs
  proof (cases "d \<le> 1")
    case True
    then show ?thesis by (auto simp: list_all_iff hasKey_fst)
  next
    case False
    then have "d - 1 < d" by simp
    from less [OF this] False show ?thesis by (auto simp: list_all_iff hasKey_fst)
  qed
  have "shallowEqual a a d" for a
    using objs by (cases a) simp_all
  with objs show ?case by blast
qed

lemma shallowEqual_refl: "shallowEqual a a d"
  using shallowEqual_refl_aux by blast

declare shallowEqual.simps [simp del] shallowEqualObjects.simps [simp del]

lemma shallowEqualArrays_refl [simp]: "shallowEqualArrays a a d"
  by (simp add: shallowEqualArrays_def list_all_iff shallowEqual_refl)







subsection \<open>The memoizer\<close>


lemma memoize_hit:
  "List.find (\<lambda>c. shallowEqualArrays args (fst c) d) (g s) = Some c
     \<Longrightarrow> memoize g st fn d args s = (snd c, s)"
  by (simp add: memoize_def)

lemma memoize_miss:
  "List.find (\<lambda>c. shallowEqualArrays args (fst c) d) (g s) = None
     \<Longrightarrow> memoize g st fn d args s =
           (fst (fn args s), st (g (snd (fn args s)) @ [(args, fst (fn args s))]) (snd (fn args s)))"
  by (simp add: memoize_def split: prod.splits)


subsection \<open>The store under the accessors\<close>

lemma newLayerCollection_simps [simp]:
  "fst (newLayerCollection ls w) = nextCollection w"
  "nextCollection (snd (newLayerCollection ls w)) = Suc (nextCollection w)"
  "artboards (snd (newLayerCollection ls w)) = artboards w"
  "designs (snd (newLayerCollection ls w)) = designs w"
  "collections (snd (newLayerCollection ls w)) = (collections w)(nextCollection w := ls)"
  by (simp_all add: newLayerCollection_def)

lemma set_cache_simps [simp]:
  "getRootLayers_cache (artboards (set_getRootLayers_cache this c w) this) = c"
  "getFlattenedLayers_cache (artboards (set_getFlattenedLayers_cache this c w) this) = c"
  "getFlattenedLayers_cache (artboards (set_getRootLayers_cache this c w) this)
     = getFlattenedLayers_cache (artboards w this)"
  "getRootLayers_cache (artboards (set_getFlattenedLayers_cache this c w) this)
     = getRootLayers_cache (artboards w this)"
  "a_octopus (artboards (set_getRootLayers_cache this c w) r) = a_octopus (artboards w r)"
  "a_octopus (artboards (set_getFlattenedLayers_cache this c w) r) = a_octopus (artboards w r)"
  "a_manifest (artboards (set_getRootLayers_cache this c w) r) = a_manifest (artboards w r)"
  "a_manifest (artboards (set_getFlattenedLayers_cache this c w) r) = a_manifest (artboards w r)"
  "collections (set_getRootLayers_cache this c w) = collections w"
  "collections (set_getFlattenedLayers_cache this c w) = collections w"
  "nextCollection (set_getRootLayers_cache this c w) = nextCollection w"
  "nextCollection (set_getFlattenedLayers_cache this c w) = nextCollection w"
  by (simp_all add: set_getRootLayers_cache_def set_getFlattenedLayers_cache_def)

lemma fn_simps [simp]:
  "fst (getRootLayers_fn this args w) = nextCollection w"
  "nextCollection (snd (getRootLayers_fn this args w)) = Suc (nextCollection w)"
  "artboards (snd (getRootLayers_fn this args w)) = artboards w"
  "collections (snd (getRootLayers_fn this args w))
     = (collections w)(nextCollection w :=
          createLayers (octopusLayers (a_octopus (artboards w this))) None (Some this))"
  "fst (getFlattenedLayers_fn this args w) = nextCollection w"
  "nextCollection (snd (getFlattenedLayers_fn this args w)) = Suc (nextCollection w)"
  "artboards (snd (getFlattenedLayers_fn this args w)) = artboards w"
  "collections (snd (getFlattenedLayers_fn this args w))
     = (collections w)(nextCollection w :=
          createFlattenedLayers (octopusLayers (a_octopus (artboards w this))) (Some this)
            (Some (depthOr (optionsDepth args) \<infinity>)))"
  by (simp_all add: getRootLayers_fn_def getFlattenedLayers_fn_def Let_def)

lemma unload_simps [simp]:
  "getRootLayers_cache (artboards (Artboard_unload this w) this) = getRootLayers_cache (artboards w this)"
  "getFlattenedLayers_cache (artboards (Artboard_unload this w) this)
     = getFlattenedLayers_cache (artboards w this)"
  "a_octopus (artboards (Artboard_unload this w) this) = None"
  "collections (Artboard_unload this w) = collections w"
  "nextCollection (Artboard_unload this w) = nextCollection w"
  by (simp_all add: Artboard_unload_def)

lemma setOctopus_simps [simp]:
  "collections (Artboard_setOctopus this oct w) = collections w"
  "nextCollection (Artboard_setOctopus this oct w) = nextCollection w"
  "getRootLayers_cache (artboards (Artboard_setOctopus this oct w) this) = []"
  "getFlattenedLayers_cache (artboards (Artboard_setOctopus this oct w) this) = []"
  "a_octopus (artboards (Artboard_setOctopus this oct w) this) = Some oct"
  by (simp_all add: Artboard_setOctopus_def Let_def memoize_clear_def set_manifest_def
      set_getRootLayers_cache_def set_getFlattenedLayers_cache_def)

lemma getRootLayers_cases:
  "(\<exists>c \<in> set (getRootLayers_cache (artboards w this)). Artboard_getRootLayers this w = (snd c, w)) \<or>
   (List.find (\<lambda>c. shallowEqualArrays [] (fst c) 1) (getRootLayers_cache (artboards w this)) = None \<and>
    Artboard_getRootLayers this w =
      (nextCollection w,
       set_getRootLayers_cache this (getRootLayers_cache (artboards w this) @ [([], nextCollection w)])
         (snd (getRootLayers_fn this [] w))))"
proof (cases "List.find (\<lambda>c. shallowEqualArrays [] (fst c) 1) (getRootLayers_cache (artboards w this))")
  case None
  then show ?thesis by (simp add: Artboard_getRootLayers_def memoize_miss)
next
  case (Some c)
  then have "c \<in> set (getRootLayers_cache (artboards w this))"
    by (auto simp: find_Some_iff)
  with Some show ?thesis by (auto simp: Artboard_getRootLayers_def memoize_hit)
qed

lemma getFlattenedLayers_cases:
  "(\<exists>c \<in> set (getFlattenedLayers_cache (artboards w this)).
       shallowEqualArrays args (fst c) 2 \<and> Artboard_getFlattenedLayers this args w = (snd c, w)) \<or>
   (List.find (\<lambda>c. shallowEqualArrays args (fst c) 2) (getFlattenedLayers_cache (artboards w this)) = None \<and>
    Artboard_getFlattenedLayers this args w =
      (nextCollection w,
       set_getFlattenedLayers_cache this
         (getFlattenedLayers_cache (artboards w this) @ [(args, nextCollection w)])
         (snd (getFlattenedLayers_fn this args w))))"
proof (cases "List.find (\<lambda>c. shallowEqualArrays args (fst c) 2) (getFlattenedLayers_cache (artboards w this))")
  case None
  then show ?thesis by (simp add: Artboard_getFlattenedLayers_def memoize_miss)
next
  case (Some c)
  then have "c \<in> set (getFlattenedLayers_cache (artboards w this)) \<and> shallowEqualArrays args (fst c) 2"
    by (auto simp: find_Some_iff)
  with Some show ?thesis by (auto simp: Artboard_getFlattenedLayers_def memoize_hit)
qed

lemma getRootLayers_frame:
  "nextCollection w \<le> nextCollection (snd (Artboard_getRootLayers this w))"
  "r < nextCollection w \<Longrightarrow> collections (snd (Artboard_getRootLayers this w)) r = collections w r"
  "a_octopus (artboards (snd (Artboard_getRootLayers this w)) this) = a_octopus (artboards w this)"
  "getFlattenedLayers_cache (artboards (snd (Artboard_getRootLayers this w)) this)
     = getFlattenedLayers_cache (artboards w this)"
  using getRootLayers_cases [of w this] by auto

lemma getFlattenedLayers_frame:
  "nextCollection w \<le> nextCollection (snd (Artboard_getFlattenedLayers this args w))"
  "r < nextCollection w \<Longrightarrow> collections (snd (Artboard_getFlattenedLayers this args w)) r = collections w r"
  "a_octopus (artboards (snd (Artboard_getFlattenedLayers this args w)) this) = a_octopus (artboards w this)"
  "getRootLayers_cache (artboards (snd (Artboard_getFlattenedLayers this args w)) this)
     = getRootLayers_cache (artboards w this)"
  using getFlattenedLayers_cases [of w this args] by auto

lemma getRootLayers_allocated:
  assumes "cachesAllocated this w"
  shows "fst (Artboard_getRootLayers this w) < nextCollection (snd (Artboard_getRootLayers this w))"
    and "cachesAllocated this (snd (Artboard_getRootLayers this w))"
  using getRootLayers_cases [of w this] assms
  by (force simp: cachesAllocated_def list_all_iff less_Suc_eq)+

lemma getFlattenedLayers_allocated:
  assumes "cachesAllocated this w"
  shows "fst (Artboard_getFlattenedLayers this args w)
           < nextCollection (snd (Artboard_getFlattenedLayers this args w))"
    and "cachesAllocated this (snd (Artboard_getFlattenedLayers this args w))"
  using getFlattenedLayers_cases [of w this args] assms
  by (force simp: cachesAllocated_def list_all_iff less_Suc_eq)+

lemma setOctopus_allocated: "cachesAllocated this (Artboard_setOctopus this oct w)"
  by (simp add: cachesAllocated_def)

lemma getRootLayers_fresh:
  assumes "getRootLayers_cache (artboards w this) = []"
  shows "fst (Artboard_getRootLayers this w) = nextCollection w"
    and "collections (snd (Artboard_getRootLayers this w)) (nextCollection w)
           = createLayers (octopusLayers (a_octopus (artboards w this))) None (Some this)"
    and "nextCollection (snd (Artboard_getRootLayers this w)) = Suc (nextCollection w)"
  using getRootLayers_cases [of w this] assms by auto

lemma getFlattenedLayers_fresh:
  assumes "getFlattenedLayers_cache (artboards w this) = []"
  shows "fst (Artboard_getFlattenedLayers this args w) = nextCollection w"
    and "collections (snd (Artboard_getFlattenedLayers this args w)) (nextCollection w)
           = createFlattenedLayers (octopusLayers (a_octopus (artboards w this))) (Some this)
               (Some (depthOr (optionsDepth args) \<infinity>))"
    and "nextCollection (snd (Artboard_getFlattenedLayers this args w)) = Suc (nextCollection w)"
  using getFlattenedLayers_cases [of w this args] assms by auto




lemma setOctopus_valid: "flattenedCacheValid this (Artboard_setOctopus this oct w)"
  by (simp add: flattenedCacheValid_def)

lemma unload_allocated: "cachesAllocated this w \<Longrightarrow> cachesAllocated this (Artboard_unload this w)"
  by (simp add: cachesAllocated_def)

lemma getRootLayers_valid:
  assumes "cachesAllocated this w" and "flattenedCacheValid this w"
  shows "flattenedCacheValid this (snd (Artboard_getRootLayers this w))"
proof -
  have alloc: "\<And>c. c \<in> set (getFlattenedLayers_cache (artboards w this)) \<Longrightarrow> snd c \<noteq> nextCollection w"
    using assms(1) by (fastforce simp: cachesAllocated_def list_all_iff)
  from getRootLayers_cases [of w this] show ?thesis
  proof
    assume "\<exists>c\<in>set (getRootLayers_cache (artboards w this)). Artboard_getRootLayers this w = (snd c, w)"
    with assms(2) show ?thesis by auto
  next
    assume "find (\<lambda>c. shallowEqualArrays [] (fst c) 1) (getRootLayers_cache (artboards w this)) = None \<and>
      Artboard_getRootLayers this w =
      (nextCollection w,
       set_getRootLayers_cache this (getRootLayers_cache (artboards w this) @ [([], nextCollection w)])
        (snd (getRootLayers_fn this [] w)))"
    with assms(2) alloc show ?thesis
      by (simp add: flattenedCacheValid_def list_all_iff)
  qed
qed

subsection \<open>The example calls\<close>

lemma ex_calls:
  "Artboard_getRootLayers 0 exWorld = (0, exW1)"
  "Artboard_getFlattenedLayers 0 [] exW1 = (1, exW2)"
  "Artboard_getRootLayers 0 (Artboard_setOctopus 0 exOctopus2 exW2) = (2, exW3)"
  "Artboard_getFlattenedLayers 0 [] exW3 = (3, exW4)"
proof -
  have "fst (Artboard_getRootLayers 0 exWorld) = 0" by code_simp
  then show "Artboard_getRootLayers 0 exWorld = (0, exW1)"
    by (simp add: exW1_def prod_eq_iff)
  have "fst (Artboard_getFlattenedLayers 0 [] exW1) = 1" by code_simp
  then show "Artboard_getFlattenedLayers 0 [] exW1 = (1, exW2)"
    by (simp add: exW2_def prod_eq_iff)
  have "fst (Artboard_getRootLayers 0 (Artboard_setOctopus 0 exOctopus2 exW2)) = 2" by code_simp
  then show "Artboard_getRootLayers 0 (Artboard_setOctopus 0 exOctopus2 exW2) = (2, exW3)"
    by (simp add: exW3_def prod_eq_iff)
  have "fst (Artboard_getFlattenedLayers 0 [] exW3) = 3" by code_simp
  then show "Artboard_getFlattenedLayers 0 [] exW3 = (3, exW4)"
    by (simp add: exW4_def prod_eq_iff)
qed

subsection \<open>Nesting depths\<close>














subsection \<open>Bitmap asset descriptors\<close>

lemma assetUses_simps [simp]:
  "assetUses [] = {}"
  "assetUses (d # ds) = ({name d} \<times> set (layerIds d)) \<union> assetUses ds"
  "assetUses (xs @ ys) = assetUses xs \<union> assetUses ys"
  by (auto simp: assetUses_def)

lemma assetUses_concat: "assetUses (concat xss) = (\<Union>xs \<in> set xss. assetUses xs)"
  by (induction xss) auto

lemma merge_names:
  "set (map name (mergeBitmapAssetDescriptor d acc)) = insert (name d) (set (map name acc))"
  by (induction acc) auto

lemma merge_distinct:
  "distinct (map name acc) \<Longrightarrow> distinct (map name (mergeBitmapAssetDescriptor d acc))"
proof (induction acc)
  case Nil
  then show ?case by simp
next
  case (Cons e acc)
  have "set (map name (mergeBitmapAssetDescriptor d acc)) = insert (name d) (set (map name acc))"
    by (rule merge_names)
  with Cons show ?case by auto
qed

lemma merge_assetUses:
  "assetUses (mergeBitmapAssetDescriptor d acc) = assetUses acc \<union> ({name d} \<times> set (layerIds d))"
  by (induction acc) auto

lemma foldl_merge:
  "distinct (map name acc) \<Longrightarrow>
   distinct (map name (foldl (\<lambda>acc desc. mergeBitmapAssetDescriptor desc acc) acc ds)) \<and>
   assetUses (foldl (\<lambda>acc desc. mergeBitmapAssetDescriptor desc acc) acc ds) = assetUses acc \<union> assetUses ds"
proof (induction ds arbitrary: acc)
  case Nil
  then show ?case by simp
next
  case (Cons d ds)
  from Cons.IH [OF merge_distinct [OF Cons.prems, of d]]
  show ?case by (auto simp: merge_assetUses)
qed

lemma keepUnique_distinct: "distinct (map name (keepUniqueBitmapAssetDescriptors ds))"
  using foldl_merge [of "[]" ds] by (simp add: keepUniqueBitmapAssetDescriptors_def)

lemma keepUnique_assetUses: "assetUses (keepUniqueBitmapAssetDescriptors ds) = assetUses ds"
  using foldl_merge [of "[]" ds] by (simp add: keepUniqueBitmapAssetDescriptors_def)

lemma assetUses_own:
  "assetUses (map (\<lambda>desc. \<lparr>name = bad_name desc, prerendered = bad_prerendered desc,
                         layerIds = [bad_layerId desc]\<rparr>)
              (Layer_createBitmapAssetDescriptors l incl)) = ownAssetUses l incl"
proof -
  have "bad_layerId b = Layer_id l" if "b \<in> set (Layer_createBitmapAssetDescriptors l incl)" for b
    using that by (auto simp: Layer_createBitmapAssetDescriptors_def getLayerBitmapAssets_def)
  then show ?thesis
    by (auto simp: assetUses_def ownAssetUses_def image_iff)
qed

lemma getBitmapAssets_unfold:
  "Layer_getBitmapAssets this options =
     keepUniqueBitmapAssetDescriptors
       (map (\<lambda>desc. \<lparr>name = bad_name desc, prerendered = bad_prerendered desc,
                         layerIds = [bad_layerId desc]\<rparr>)
              (Layer_createBitmapAssetDescriptors this (ob_includePrerendered options \<noteq> Some False))
        @ (if depthOr (ob_depth options) \<infinity> = 1 then []
           else Layer_getBitmapAssets_each (Layer_getDirectlyNestedLayers this)
                  (options\<lparr>ob_depth := Some (depthOr (ob_depth options) \<infinity> - 1)\<rparr>)))"
  by (subst Layer_getBitmapAssets.simps)
     (simp add: Let_def Layer_getBitmapAssets_each_def getNestedLayers_one)

lemma getBitmapAssets_each_simps:
  "Layer_getBitmapAssets_each [] options = []"
  "Layer_getBitmapAssets_each (l # ls) options
     = Layer_getBitmapAssets l options @ Layer_getBitmapAssets_each ls options"
  by (simp_all add: Layer_getBitmapAssets_each_def)

lemma enat_pred_nonzero: "d \<noteq> 0 \<Longrightarrow> d \<noteq> 1 \<Longrightarrow> d - 1 \<noteq> (0::enat)"
  by (cases d) (auto simp: zero_enat_def one_enat_def)

lemma depthOr_nonzero [simp]: "d \<noteq> 0 \<Longrightarrow> depthOr (Some d) x = d"
  by (simp add: depthOr_def)

lemma depthOr_infinity_nonzero [simp]: "depthOr od \<infinity> \<noteq> 0"
  by (simp add: depthOr_def split: option.splits)

lemma scope_unfold:
  assumes "depthOr (ob_depth options) \<infinity> \<noteq> 1"
  shows "bitmapAssetScope this options =
     this # concat (map (\<lambda>c. bitmapAssetScope c
                (options\<lparr>ob_depth := Some (depthOr (ob_depth options) \<infinity> - 1)\<rparr>))
            (Layer_getDirectlyNestedLayers this))"
proof -
  let ?d = "depthOr (ob_depth options) \<infinity>"
  have d0: "?d \<noteq> 0" by simp
  have p0: "?d - 1 \<noteq> 0" using enat_pred_nonzero [OF d0 assms] .
  show ?thesis
  proof (cases "?d - 1 = 1")
    case True
    then have "Layer_getNestedLayers this (Some (?d - 1)) = Layer_getDirectlyNestedLayers this"
      by (simp add: getNestedLayers_one)
    moreover have "\<And>c. bitmapAssetScope c (options\<lparr>ob_depth := Some (?d - 1)\<rparr>) = [c]"
      using True by (simp add: bitmapAssetScope_def)
    ultimately show ?thesis using assms by (simp add: bitmapAssetScope_def)
  next
    case False
    have p1: "?d - 1 - 1 \<noteq> 0" using enat_pred_nonzero [OF p0 False] .
    have "Layer_getNestedLayers this (Some (?d - 1))
        = LayerCollection_flatten (Layer_getDirectlyNestedLayers this) (Some (?d - 1 - 1))"
      using False p0 by (subst Layer_getNestedLayers.simps) (simp add: Let_def)
    also have "\<dots> = concat (map (\<lambda>c. c # Layer_getNestedLayers c (Some (?d - 1 - 1)))
                          (Layer_getDirectlyNestedLayers this))"
      using p1 by (subst LayerCollection_flatten.simps) (simp add: Let_def)
    also have "\<dots> = concat (map (\<lambda>c. bitmapAssetScope c (options\<lparr>ob_depth := Some (?d - 1)\<rparr>))
            (Layer_getDirectlyNestedLayers this))"
      using False p0 by (simp add: bitmapAssetScope_def)
    finally show ?thesis using assms by (simp add: bitmapAssetScope_def)
  qed
qed

lemma scope_one:
  "depthOr (ob_depth options) \<infinity> = 1 \<Longrightarrow> bitmapAssetScope this options = [this]"
  by (simp add: bitmapAssetScope_def)

lemma getBitmapAssets_assetUses:
  "assetUses (Layer_getBitmapAssets this options)
     = (\<Union>l \<in> set (bitmapAssetScope this options). ownAssetUses l (ob_includePrerendered options \<noteq> Some False))"
proof (induction this options rule: Layer_getBitmapAssets.induct)
  case (1 this options)
  let ?d = "depthOr (ob_depth options) \<infinity>"
  let ?incl = "ob_includePrerendered options \<noteq> Some False"
  let ?o' = "options\<lparr>ob_depth := Some (?d - 1)\<rparr>"
  show ?case
  proof (cases "?d = 1")
    case True
    then show ?thesis
      by (subst getBitmapAssets_unfold) (simp add: keepUnique_assetUses assetUses_own scope_one)
  next
    case False
    have ih: "assetUses (Layer_getBitmapAssets c ?o')
         = (\<Union>l \<in> set (bitmapAssetScope c ?o'). ownAssetUses l ?incl)"
      if "c \<in> set (Layer_getDirectlyNestedLayers this)" for c
      using "1.IH" [OF refl refl False, of c] that by (simp add: getNestedLayers_one)
    have "assetUses (Layer_getBitmapAssets this options)
        = ownAssetUses this ?incl \<union> (\<Union>c \<in> set (Layer_getDirectlyNestedLayers this). assetUses (Layer_getBitmapAssets c ?o'))"
      using False
      by (subst getBitmapAssets_unfold)
         (simp add: keepUnique_assetUses assetUses_own Layer_getBitmapAssets_each_def assetUses_concat)
    also have "\<dots> = ownAssetUses this ?incl \<union> (\<Union>c \<in> set (Layer_getDirectlyNestedLayers this).
                          \<Union>l \<in> set (bitmapAssetScope c ?o'). ownAssetUses l ?incl)"
      using ih by simp
    also have "\<dots> = (\<Union>l \<in> set (bitmapAssetScope this options). ownAssetUses l ?incl)"
      by (simp add: scope_unfold [OF False])
    finally show ?thesis .
  qed
qed

lemma getBitmapAssets_distinct: "distinct (map name (Layer_getBitmapAssets this options))"
  by (subst getBitmapAssets_unfold) (rule keepUnique_distinct)

lemma assetUses_member:
  "(k, i) \<in> assetUses ds \<longleftrightarrow> (\<exists>d \<in> set ds. name d = k \<and> i \<in> set (layerIds d))"
  by (auto simp: assetUses_def)

lemma distinct_name_eq:
  "distinct (map name ds) \<Longrightarrow> d \<in> set ds \<Longrightarrow> d' \<in> set ds \<Longrightarrow> name d = name d' \<Longrightarrow> d = d'"
  by (meson distinct_map inj_onD)

declare getBitmapAssets_unfold [code] getBitmapAssets_each_simps [code]

lemma ex_bitmaps:
  "exLeafLayer \<in> set (bitmapAssetScope exRootLayer exOptions)"
  "exSiblingLayer \<in> set (bitmapAssetScope exRootLayer exOptions)"
  "\<lparr>bad_layerId = ''leaf'', bad_name = ''photo.png'', bad_prerendered = False\<rparr>
     \<in> set (Layer_createBitmapAssetDescriptors exLeafLayer (ob_includePrerendered exOptions \<noteq> Some False))"
  "\<lparr>bad_layerId = ''sibling'', bad_name = ''photo.png'', bad_prerendered = False\<rparr>
     \<in> set (Layer_createBitmapAssetDescriptors exSiblingLayer (ob_includePrerendered exOptions \<noteq> Some False))"
  "Layer_getBitmapAssets exRootLayer exOptions
     = [\<lparr>name = ''photo.png'', prerendered = False, layerIds = [''leaf'', ''sibling'']\<rparr>]"
  by code_simp+

subsection \<open>Pages\<close>

lemma addArtboard_succeeds_only_on_own_page:
  "Page_addArtboard this artboardId w = Inr w' \<Longrightarrow>
   \<exists>a. Design_getArtboardById (designs w (p_design this)) artboardId = Some a \<and>
       Artboard_pageId (artboards w a) = Some (p_id this)"
  by (auto simp: Page_addArtboard_def Page_getArtboardById_def split: option.splits if_splits)

section \<open>Page.addArtboard\<close>

text \<open>
  Claim C1. For a design that contains an artboard with the given id, whatever the artboard's
  current page, \<^verbatim>\<open>page.addArtboard(id)\<close> is claimed to set the artboard's page id to the
  page's id, and to fail only when the design has no such artboard. The code looks the
  artboard up through \<^verbatim>\<open>Page.getArtboardById\<close>, which hides every artboard that is not on
  the page already: in the example design the artboard \<open>a\<close> exists, is on no page, and
  \<^verbatim>\<open>addArtboard('a')\<close> on page \<open>p1\<close> raises "Artboard not found".
\<close>

theorem addArtboard_of_other_page_not_found:
  "Design_getArtboardById (designs exWorld (p_design exPage)) ''a'' = Some 0 \<and>
   Artboard_pageId (artboards exWorld 0) = None \<and>
   Page_addArtboard exPage ''a'' exWorld = Inl ArtboardNotFound"
  by (simp add: Page_addArtboard_def Page_getArtboardById_def Design_getArtboardById_def
      Artboard_pageId_def ex_defs str_defs)

section \<open>Artboard.setManifest\<close>

text \<open>
  Claim C5. \<^verbatim>\<open>setManifest(nextManifest)\<close> raises an error exactly when the artboard id of
  \<^verbatim>\<open>nextManifest\<close> differs from the artboard's id. When the ids agree the call succeeds, the
  artboard's id is what it was, and the manifest is the one \<^verbatim>\<open>_createManifest\<close> builds from
  \<^verbatim>\<open>nextManifest\<close>, which keeps its \<^verbatim>\<open>failed\<close>, \<^verbatim>\<open>url\<close> and \<^verbatim>\<open>preview_url\<close>.
\<close>

theorem setManifest_identity:
  "(isl (Artboard_setManifest this nextManifest w)
      \<longleftrightarrow> artboard_original_id nextManifest \<noteq> Artboard_id (artboards w this)) \<and>
   (artboard_original_id nextManifest = Artboard_id (artboards w this) \<longrightarrow>
      (\<exists>w'. Artboard_setManifest this nextManifest w = Inr w' \<and>
            Artboard_id (artboards w' this) = Artboard_id (artboards w this) \<and>
            Artboard_getManifest this w' =
              Artboard_createManifest w (a_design (artboards w this)) (Some nextManifest)
                (a_octopus (artboards w this))
                \<lparr>cm_id = Artboard_id (artboards w this), cm_pageId = None,
                 cm_componentId = None, cm_name = None\<rparr> \<and>
            failed (Artboard_getManifest this w') = failed nextManifest \<and>
            url (Artboard_getManifest this w') = url nextManifest \<and>
            preview_url (Artboard_getManifest this w') = preview_url nextManifest))"
  by (simp add: Artboard_setManifest_def Let_def set_manifest_def Artboard_getManifest_def
      Artboard_id_def createManifest_kept)

theorem setManifest_identity_witness:
  "artboard_original_id (exManifest ''a'' None (Some ''p1'')) = Artboard_id (artboards exWorld 0) \<and>
   (\<exists>w'. Artboard_setManifest 0 (exManifest ''a'' None (Some ''p1'')) exWorld = Inr w' \<and>
         Artboard_id (artboards w' 0) = ''a'' \<and>
         page_original_id (Artboard_getManifest 0 w') = Some ''p1'') \<and>
   artboard_original_id (exManifest ''z'' None None) \<noteq> Artboard_id (artboards exWorld 0) \<and>
   isl (Artboard_setManifest 0 (exManifest ''z'' None None) exWorld)"
  using setManifest_identity [of 0 "exManifest ''a'' None (Some ''p1'')" exWorld]
    setManifest_identity [of 0 "exManifest ''z'' None None" exWorld]
  by (auto simp add: ex_defs Artboard_id_def Artboard_createManifest_def Let_def str_defs Design_getPageById_def)

section \<open>Artboard.unload\<close>

text \<open>
  Claim C8. After \<^verbatim>\<open>unload()\<close> the artboard is not loaded and \<^verbatim>\<open>getOctopus()\<close> returns
  nothing, while the manifest, and with it the id, the page id, the component id and the
  name, are what they were before the call.
\<close>

theorem unload_keeps_manifest:
  "\<not> Artboard_isLoaded this (Artboard_unload this w) \<and>
   Artboard_getOctopus this (Artboard_unload this w) = None \<and>
   Artboard_getManifest this (Artboard_unload this w) = Artboard_getManifest this w \<and>
   Artboard_id (artboards (Artboard_unload this w) this) = Artboard_id (artboards w this) \<and>
   Artboard_pageId (artboards (Artboard_unload this w) this) = Artboard_pageId (artboards w this) \<and>
   Artboard_componentId (artboards (Artboard_unload this w) this)
     = Artboard_componentId (artboards w this) \<and>
   Artboard_name (artboards (Artboard_unload this w) this) = Artboard_name (artboards w this)"
  by (simp add: Artboard_isLoaded_def Artboard_unload_def Artboard_getOctopus_def
      Artboard_getManifest_def Artboard_id_def Artboard_pageId_def Artboard_componentId_def
      Artboard_name_def)

section \<open>Artboard.setOctopus and the layer views handed out before it\<close>

text \<open>
  Claim C2. In a store whose cached collections exist, let \<^verbatim>\<open>getRootLayers()\<close> and
  \<^verbatim>\<open>getFlattenedLayers(options)\<close> hand out two collections, and let \<^verbatim>\<open>setOctopus(nextOctopus)\<close>
  follow. After that call, and again after fresh calls of both accessors, the two collections
  handed out before hold the same layers in the same order as when they were handed out; the fresh
  \<^verbatim>\<open>getRootLayers()\<close> returns the root layers of \<^verbatim>\<open>nextOctopus\<close> and the fresh
  \<^verbatim>\<open>getFlattenedLayers(options')\<close> its flattened layers at the depth of \<^verbatim>\<open>options'\<close>: nothing
  stale is returned.
\<close>

theorem setOctopus_snapshot_and_invalidation:
  assumes "cachesAllocated this w0"
    and "Artboard_getRootLayers this w0 = (rootsBefore, w1)"
    and "Artboard_getFlattenedLayers this args w1 = (flatBefore, w2)"
    and "Artboard_getRootLayers this (Artboard_setOctopus this nextOctopus w2) = (rootsAfter, w3)"
    and "Artboard_getFlattenedLayers this args' w3 = (flatAfter, w4)"
  shows "collections (Artboard_setOctopus this nextOctopus w2) rootsBefore = collections w1 rootsBefore \<and>
         collections (Artboard_setOctopus this nextOctopus w2) flatBefore = collections w2 flatBefore \<and>
         collections w4 rootsBefore = collections w1 rootsBefore \<and>
         collections w4 flatBefore = collections w2 flatBefore \<and>
         collections w4 rootsAfter = createLayers (oct_layers nextOctopus) None (Some this) \<and>
         collections w4 flatAfter =
           createFlattenedLayers (oct_layers nextOctopus) (Some this)
             (Some (depthOr (optionsDepth args') \<infinity>))"
proof -
  let ?ws = "Artboard_setOctopus this nextOctopus w2"
  have r1: "rootsBefore = fst (Artboard_getRootLayers this w0)" "w1 = snd (Artboard_getRootLayers this w0)"
    using assms(2) by simp_all
  have r2: "flatBefore = fst (Artboard_getFlattenedLayers this args w1)"
      "w2 = snd (Artboard_getFlattenedLayers this args w1)"
    using assms(3) by simp_all
  have r3: "rootsAfter = fst (Artboard_getRootLayers this ?ws)" "w3 = snd (Artboard_getRootLayers this ?ws)"
    using assms(4) by simp_all
  have r4: "flatAfter = fst (Artboard_getFlattenedLayers this args' w3)"
      "w4 = snd (Artboard_getFlattenedLayers this args' w3)"
    using assms(5) by simp_all
  have a1: "rootsBefore < nextCollection w1" "cachesAllocated this w1"
    using getRootLayers_allocated [OF assms(1)] r1 by simp_all
  have a2: "flatBefore < nextCollection w2" "nextCollection w1 \<le> nextCollection w2"
      "collections w2 rootsBefore = collections w1 rootsBefore"
    using getFlattenedLayers_allocated [OF a1(2), of args]
      getFlattenedLayers_frame(1,2) [where w = w1 and this = this and args = args] a1(1) r2
    by simp_all
  have s: "collections ?ws = collections w2" "nextCollection ?ws = nextCollection w2"
      "getRootLayers_cache (artboards ?ws this) = []"
      "getFlattenedLayers_cache (artboards ?ws this) = []"
      "a_octopus (artboards ?ws this) = Some nextOctopus"
    by simp_all
  have a3: "rootsAfter = nextCollection w2" "nextCollection w3 = Suc (nextCollection w2)"
      "collections w3 rootsAfter = createLayers (oct_layers nextOctopus) None (Some this)"
      "\<And>r. r < nextCollection w2 \<Longrightarrow> collections w3 r = collections w2 r"
      "getFlattenedLayers_cache (artboards w3 this) = []"
      "a_octopus (artboards w3 this) = Some nextOctopus"
    using getRootLayers_fresh [OF s(3)]
      getRootLayers_frame(2,3,4) [where w = ?ws and this = this] r3 s
    by (simp_all add: octopusLayers_def)
  have a4: "collections w4 flatAfter =
           createFlattenedLayers (oct_layers nextOctopus) (Some this)
             (Some (depthOr (optionsDepth args') \<infinity>))"
      "\<And>r. r < nextCollection w3 \<Longrightarrow> collections w4 r = collections w3 r"
    using getFlattenedLayers_fresh [OF a3(5), of args']
      getFlattenedLayers_frame(2) [where w = w3 and this = this and args = args'] r4 a3(6)
    by (simp_all add: octopusLayers_def)
  from a1 a2 a3 a4 s(1) show ?thesis by simp
qed

theorem setOctopus_snapshot_and_invalidation_witness:
  "cachesAllocated 0 exWorld \<and>
   Artboard_getRootLayers 0 exWorld = (0, exW1) \<and>
   Artboard_getFlattenedLayers 0 [] exW1 = (1, exW2) \<and>
   Artboard_getRootLayers 0 (Artboard_setOctopus 0 exOctopus2 exW2) = (2, exW3) \<and>
   Artboard_getFlattenedLayers 0 [] exW3 = (3, exW4) \<and>
   map Layer_id (collections exW1 0) = [''root''] \<and>
   map Layer_id (collections exW4 0) = [''root''] \<and>
   map Layer_id (collections exW2 1) = [''root'', ''group'', ''leaf'', ''sibling''] \<and>
   map Layer_id (collections exW4 1) = [''root'', ''group'', ''leaf'', ''sibling''] \<and>
   map Layer_id (collections exW4 2) = [''sibling''] \<and>
   map Layer_id (collections exW4 3) = [''sibling'']"
proof -
  have h0: "cachesAllocated 0 exWorld" by code_simp
  have b1: "map Layer_id (collections exW1 0) = [''root'']" by code_simp
  have b2: "map Layer_id (collections exW2 1) = [''root'', ''group'', ''leaf'', ''sibling'']" by code_simp
  have n1: "map Layer_id (createLayers (oct_layers exOctopus2) None (Some 0)) = [''sibling'']" by code_simp
  have n2: "map Layer_id (createFlattenedLayers (oct_layers exOctopus2) (Some 0)
              (Some (depthOr (optionsDepth []) \<infinity>))) = [''sibling'']" by code_simp
  from setOctopus_snapshot_and_invalidation [OF h0 ex_calls(1) ex_calls(2) ex_calls(3) ex_calls(4)]
  show ?thesis using h0 ex_calls b1 b2 n1 n2 by simp
qed

section \<open>Layer.getNestedLayers: the default depth\<close>

text \<open>
  Claim C3, as stated: \<^verbatim>\<open>getNestedLayers\<close> with the depth unset, 0 or \<^verbatim>\<open>Infinity\<close> returns all
  nested layers at every level, the same collection for the three spellings. The code reads
  \<^verbatim>\<open>options.depth || 1\<close>: on the example root layer the unset depth gives the two directly
  nested layers and \<^verbatim>\<open>Infinity\<close> gives all three nested layers.
\<close>

theorem getNestedLayers_default_counterexample:
  "Layer_getNestedLayers (newLayer exRoot None None) None
     \<noteq> Layer_getNestedLayers (newLayer exRoot None None) (Some \<infinity>) \<and>
   map Layer_id (Layer_getNestedLayers (newLayer exRoot None None) None) = [''group'', ''sibling''] \<and>
   map Layer_id (Layer_getNestedLayers (newLayer exRoot None None) (Some 0)) = [''group'', ''sibling''] \<and>
   map Layer_id (Layer_getNestedLayers (newLayer exRoot None None) (Some \<infinity>))
     = [''group'', ''leaf'', ''sibling'']"
  by code_simp

text \<open>
  Claim C3, amended: with the depth unset or 0, \<^verbatim>\<open>getNestedLayers\<close> returns the directly nested
  layers only (depth 1 is the default); with \<^verbatim>\<open>Infinity\<close> it returns all nested layers at
  every nesting level, in document order.
\<close>

theorem getNestedLayers_default_is_one_level:
  "Layer_getNestedLayers this None = Layer_getDirectlyNestedLayers this \<and>
   Layer_getNestedLayers this (Some 0) = Layer_getDirectlyNestedLayers this \<and>
   Layer_getNestedLayers this (Some \<infinity>) = allNestedLayers this"
proof -
  have "Layer_getNestedLayers this (Some \<infinity>)
      = LayerCollection_flatten (Layer_getDirectlyNestedLayers this) (Some \<infinity>)"
    by (rule getNestedLayers_infinity)
  also have "Layer_getDirectlyNestedLayers this
      = map (\<lambda>x. newLayer x (Some (Layer_id this)) (l_artboard this)) (ld_layers (octopus this))"
    by (simp add: Layer_getDirectlyNestedLayers_def createLayers_def)
  also have "LayerCollection_flatten \<dots> (Some \<infinity>) = allNestedLayers this"
  proof -
    have "newLayer x (Some (Layer_id this)) (l_artboard this)
            # Layer_getNestedLayers (newLayer x (Some (Layer_id this)) (l_artboard this)) (Some \<infinity>)
          = subtreeLayers (l_artboard this) (Some (Layer_id this)) x" for x
      by (cases x) (simp add: nested_infinity_subtree)
    then show ?thesis
      by (simp add: flatten_map depthOr_def allNestedLayers_def)
  qed
  finally show ?thesis
    by (simp add: getNestedLayers_unset getNestedLayers_zero)
qed

section \<open>Artboard.getFlattenedLayers: the spellings of unlimited depth\<close>




section \<open>Layer.getComponentArtboard\<close>

text \<open>
  Claim C6. A layer whose content has neither a truthy \<^verbatim>\<open>documentId\<close> nor a truthy
  \<^verbatim>\<open>symbolID\<close> yields nothing, without error. A layer with one of them raises an error when
  it has no artboard and another when its artboard has no design; otherwise the result is
  what the design's lookup by artboard id returns for the \<^verbatim>\<open>documentId\<close>, when there is one,
  and what the lookup by component id returns for the \<^verbatim>\<open>symbolID\<close> when there is no
  \<^verbatim>\<open>documentId\<close>; it is nothing when the design has no artboard of that id, respectively no
  artboard of that component id.
\<close>

theorem getComponentArtboard_resolution:
  "(\<not> truthyStr (ld_documentId (octopus this)) \<and> \<not> truthyStr (ld_symbolID (octopus this)) \<longrightarrow>
      Layer_getComponentArtboard this w = Inr None) \<and>
   (truthyStr (ld_documentId (octopus this)) \<or> truthyStr (ld_symbolID (octopus this)) \<longrightarrow>
      (l_artboard this = None \<longrightarrow>
         Layer_getComponentArtboard this w = Inl DetachedLayerComponentArtboard) \<and>
      (\<forall>a. l_artboard this = Some a \<longrightarrow>
         (Artboard_getDesign a w = None \<longrightarrow>
            Layer_getComponentArtboard this w = Inl DetachedArtboardLayerComponentArtboard) \<and>
         (\<forall>d. Artboard_getDesign a w = Some d \<longrightarrow>
            (truthyStr (ld_documentId (octopus this)) \<longrightarrow>
               Layer_getComponentArtboard this w
                 = Inr (Design_getArtboardById (designs w d) (strVal (ld_documentId (octopus this)))) \<and>
               (strVal (ld_documentId (octopus this)) \<notin> fst ` set (d_artboards (designs w d)) \<longrightarrow>
                  Layer_getComponentArtboard this w = Inr None)) \<and>
            (\<not> truthyStr (ld_documentId (octopus this)) \<longrightarrow>
               Layer_getComponentArtboard this w
                 = Inr (Design_getArtboardByComponentId w (designs w d)
                          (strVal (ld_symbolID (octopus this)))) \<and>
               ((\<forall>r \<in> snd ` set (d_artboards (designs w d)).
                    Artboard_componentId (artboards w r) \<noteq> Some (strVal (ld_symbolID (octopus this)))) \<longrightarrow>
                  Layer_getComponentArtboard this w = Inr None)))))"
  by (auto simp: Layer_getComponentArtboard_def Let_def Design_getArtboardById_def
      Design_getArtboardByComponentId_def map_of_eq_None_iff find_None_iff
      split: option.splits)

theorem getComponentArtboard_resolution_witness:
  "truthyStr (ld_symbolID (octopus (newLayer exSibling (Some ''root'') (Some 0)))) \<and>
   \<not> truthyStr (ld_documentId (octopus (newLayer exSibling (Some ''root'') (Some 0)))) \<and>
   l_artboard (newLayer exSibling (Some ''root'') (Some 0)) = Some 0 \<and>
   Artboard_getDesign 0 exWorld = Some 0 \<and>
   Layer_getComponentArtboard (newLayer exSibling (Some ''root'') (Some 0)) exWorld = Inr (Some 1) \<and>
   Layer_getComponentArtboard (newLayer exSibling (Some ''root'') None) exWorld
     = Inl DetachedLayerComponentArtboard \<and>
   Layer_getComponentArtboard (newLayer exSibling (Some ''root'') (Some 5)) exWorld
     = Inl DetachedArtboardLayerComponentArtboard \<and>
   Layer_getComponentArtboard (newLayer exLeaf (Some ''group'') None) exWorld = Inr None"
  using getComponentArtboard_resolution [of "newLayer exSibling (Some ''root'') (Some 0)" exWorld]
    getComponentArtboard_resolution [of "newLayer exSibling (Some ''root'') None" exWorld]
    getComponentArtboard_resolution [of "newLayer exSibling (Some ''root'') (Some 5)" exWorld]
    getComponentArtboard_resolution [of "newLayer exLeaf (Some ''group'') None" exWorld]
  by (simp add: newLayer_def ex_defs str_defs Artboard_getDesign_def
      Design_getArtboardByComponentId_def Artboard_componentId_def)

section \<open>Artboard.unload and the memoized layer views\<close>



section \<open>Layer.getDepth and Artboard.getLayerDepth\<close>





section \<open>Layer.getBitmapAssets\<close>

text \<open>
  Claim C9. The descriptors \<^verbatim>\<open>getBitmapAssets(options)\<close> returns have pairwise different asset
  names: never two descriptors for one asset. When two layers among the layer and its nested
  layers within the depth both use a bitmap asset, the one descriptor of that asset lists the
  ids of both. The layer ids of each descriptor are exactly the ids of the layers within the
  depth that use its asset.
\<close>

theorem getBitmapAssets_one_descriptor_per_asset:
  "distinct (map name (Layer_getBitmapAssets this options)) \<and>
   (\<forall>l1 \<in> set (bitmapAssetScope this options). \<forall>l2 \<in> set (bitmapAssetScope this options).
    \<forall>b1 \<in> set (Layer_createBitmapAssetDescriptors l1 (ob_includePrerendered options \<noteq> Some False)).
    \<forall>b2 \<in> set (Layer_createBitmapAssetDescriptors l2 (ob_includePrerendered options \<noteq> Some False)).
      bad_name b1 = bad_name b2 \<longrightarrow>
      (\<exists>d \<in> set (Layer_getBitmapAssets this options).
          name d = bad_name b1 \<and> Layer_id l1 \<in> set (layerIds d) \<and> Layer_id l2 \<in> set (layerIds d))) \<and>
   (\<forall>d \<in> set (Layer_getBitmapAssets this options).
      set (layerIds d) =
        {Layer_id l | l. l \<in> set (bitmapAssetScope this options) \<and>
           name d \<in> bad_name ` set (Layer_createBitmapAssetDescriptors l
                                       (ob_includePrerendered options \<noteq> Some False))})"
proof -
  let ?res = "Layer_getBitmapAssets this options"
  let ?incl = "ob_includePrerendered options \<noteq> Some False"
  have dist: "distinct (map name ?res)" by (rule getBitmapAssets_distinct)
  have cov: "assetUses ?res = (\<Union>l \<in> set (bitmapAssetScope this options). ownAssetUses l ?incl)"
    by (rule getBitmapAssets_assetUses)
  have both: "\<exists>d \<in> set ?res. name d = bad_name b1 \<and> Layer_id l1 \<in> set (layerIds d)
                 \<and> Layer_id l2 \<in> set (layerIds d)"
    if l1: "l1 \<in> set (bitmapAssetScope this options)"
      and l2: "l2 \<in> set (bitmapAssetScope this options)"
      and b1: "b1 \<in> set (Layer_createBitmapAssetDescriptors l1 ?incl)"
      and b2: "b2 \<in> set (Layer_createBitmapAssetDescriptors l2 ?incl)"
      and eq: "bad_name b1 = bad_name b2"
    for l1 l2 b1 b2
  proof -
    have "(bad_name b1, Layer_id l1) \<in> assetUses ?res"
      unfolding cov using l1 b1 by (auto simp: ownAssetUses_def)
    then obtain d1 where d1: "d1 \<in> set ?res" "name d1 = bad_name b1" "Layer_id l1 \<in> set (layerIds d1)"
      by (auto simp: assetUses_member)
    have "(bad_name b2, Layer_id l2) \<in> assetUses ?res"
      unfolding cov using l2 b2 by (auto simp: ownAssetUses_def)
    then obtain d2 where d2: "d2 \<in> set ?res" "name d2 = bad_name b2" "Layer_id l2 \<in> set (layerIds d2)"
      by (auto simp: assetUses_member)
    have "d1 = d2"
      using distinct_name_eq [OF dist d1(1) d2(1)] d1(2) d2(2) eq by simp
    with d1 d2 show ?thesis by blast
  qed
  have ids: "set (layerIds d) =
        {Layer_id l | l. l \<in> set (bitmapAssetScope this options) \<and>
           name d \<in> bad_name ` set (Layer_createBitmapAssetDescriptors l ?incl)}"
    if d: "d \<in> set ?res" for d
  proof -
    have "i \<in> set (layerIds d) \<longleftrightarrow> (name d, i) \<in> assetUses ?res" for i
    proof
      assume "i \<in> set (layerIds d)"
      with d show "(name d, i) \<in> assetUses ?res" by (auto simp: assetUses_member)
    next
      assume "(name d, i) \<in> assetUses ?res"
      then obtain d' where d': "d' \<in> set ?res" "name d' = name d" "i \<in> set (layerIds d')"
        by (auto simp: assetUses_member)
      with distinct_name_eq [OF dist d'(1) d] show "i \<in> set (layerIds d)" by simp
    qed
    moreover have "(name d, i) \<in> (\<Union>l \<in> set (bitmapAssetScope this options). ownAssetUses l ?incl)
        \<longleftrightarrow> (\<exists>l. i = Layer_id l \<and> l \<in> set (bitmapAssetScope this options) \<and>
               name d \<in> bad_name ` set (Layer_createBitmapAssetDescriptors l ?incl))" for i
      unfolding ownAssetUses_def by blast
    ultimately show ?thesis
      unfolding cov by blast
  qed
  from dist both ids show ?thesis by blast
qed

theorem getBitmapAssets_one_descriptor_per_asset_witness:
  "exLeafLayer \<in> set (bitmapAssetScope exRootLayer exOptions) \<and>
   exSiblingLayer \<in> set (bitmapAssetScope exRootLayer exOptions) \<and>
   \<lparr>bad_layerId = ''leaf'', bad_name = ''photo.png'', bad_prerendered = False\<rparr>
     \<in> set (Layer_createBitmapAssetDescriptors exLeafLayer (ob_includePrerendered exOptions \<noteq> Some False)) \<and>
   \<lparr>bad_layerId = ''sibling'', bad_name = ''photo.png'', bad_prerendered = False\<rparr>
     \<in> set (Layer_createBitmapAssetDescriptors exSiblingLayer (ob_includePrerendered exOptions \<noteq> Some False)) \<and>
   (\<exists>d \<in> set (Layer_getBitmapAssets exRootLayer exOptions).
       name d = ''photo.png'' \<and> Layer_id exLeafLayer \<in> set (layerIds d)
         \<and> Layer_id exSiblingLayer \<in> set (layerIds d)) \<and>
   Layer_getBitmapAssets exRootLayer exOptions
     = [\<lparr>name = ''photo.png'', prerendered = False, layerIds = [''leaf'', ''sibling'']\<rparr>]"
proof -
  from getBitmapAssets_one_descriptor_per_asset [of exRootLayer exOptions]
  have "\<forall>l1 \<in> set (bitmapAssetScope exRootLayer exOptions). \<forall>l2 \<in> set (bitmapAssetScope exRootLayer exOptions).
    \<forall>b1 \<in> set (Layer_createBitmapAssetDescriptors l1 (ob_includePrerendered exOptions \<noteq> Some False)).
    \<forall>b2 \<in> set (Layer_createBitmapAssetDescriptors l2 (ob_includePrerendered exOptions \<noteq> Some False)).
      bad_name b1 = bad_name b2 \<longrightarrow>
      (\<exists>d \<in> set (Layer_getBitmapAssets exRootLayer exOptions).
          name d = bad_name b1 \<and> Layer_id l1 \<in> set (layerIds d) \<and> Layer_id l2 \<in> set (layerIds d))"
    by blast
  from this [rule_format, OF ex_bitmaps(1) ex_bitmaps(2) ex_bitmaps(3) ex_bitmaps(4)]
  have "\<exists>d \<in> set (Layer_getBitmapAssets exRootLayer exOptions).
       name d = ''photo.png'' \<and> Layer_id exLeafLayer \<in> set (layerIds d)
         \<and> Layer_id exSiblingLayer \<in> set (layerIds d)"
    by simp
  with ex_bitmaps show ?thesis by blast
qed

end
